theory Spec2Isabelle
  imports Main
begin

section \<open>JavaScript values, results and buffers\<close>

text \<open>
  The drivers are plain (non-strict) CommonJS modules.  A call either returns a result
  object or ends in an uncaught exception; both are values of the model.
\<close>

datatype js_error = ReferenceError | TypeError | RangeError

datatype 'a outcome = Returns 'a | Throws js_error

definition bind :: "'a outcome \<Rightarrow> ('a \<Rightarrow> 'b outcome) \<Rightarrow> 'b outcome" where
  "bind m f = (case m of Throws e \<Rightarrow> Throws e | Returns x \<Rightarrow> f x)"

text \<open>
  The values stored in a decoded object.  \<open>JNum\<close> is an integral number, \<open>JCenti k\<close> the
  number \<open>k / 100\<close> (the only division the drivers perform), \<open>JNaN\<close> the result of
  arithmetic on \<open>undefined\<close>.
\<close>

datatype jsval =
    JUndefined
  | JNum int
  | JNaN
  | JCenti int
  | JStr string
  | JBool bool

text \<open>An object is its list of properties in insertion order.\<close>

type_synonym obj = "(string \<times> jsval) list"

fun set_prop :: "obj \<Rightarrow> string \<Rightarrow> jsval \<Rightarrow> obj" where
  "set_prop [] k v = [(k, v)]"
| "set_prop ((k', v') # ps) k v =
     (if k' = k then (k', v) # ps else (k', v') # set_prop ps k v)"

definition get_prop :: "obj \<Rightarrow> string \<Rightarrow> jsval" where
  "get_prop d k = (case map_of d k of None \<Rightarrow> JUndefined | Some v \<Rightarrow> v)"

text \<open>
  \<open>{errors, warnings}\<close> is common to every result; \<open>data\<close> is \<open>None\<close> once
  \<open>delete result.data\<close> has run, \<open>bytes\<close> and \<open>fPort\<close> are \<open>None\<close> until assigned.
\<close>

record js_result =
  errors :: "string list"
  warnings :: "string list"

record decoded = js_result +
  data :: "obj option"

record encoded = js_result +
  bytes :: "nat list option"
  fPort :: "nat option"

subsection \<open>Numbers as strings\<close>

definition digit_char :: "nat \<Rightarrow> char" where
  "digit_char n = ''0123456789abcdefghijklmnopqrstuvwxyz'' ! (n mod 36)"

text \<open>\<open>Number.prototype.toString(radix)\<close> on a non-negative integer, radix 2 to 36.\<close>

function Number_toString :: "nat \<Rightarrow> nat \<Rightarrow> string" where
  "Number_toString radix n =
     (if radix < 2 then []
      else if n < radix then [digit_char n]
      else Number_toString radix (n div radix) @ [digit_char (n mod radix)])"
  by pat_completeness auto
termination
  by (relation "measure (\<lambda>(radix, n). n)") auto

declare Number_toString.simps [simp del]

definition int_toString :: "int \<Rightarrow> string" where
  "int_toString k =
     (if k < 0 then CHR ''-'' # Number_toString 10 (nat (- k)) else Number_toString 10 (nat k))"

text \<open>
  The decimal rendering of \<open>k / 100\<close>: the integer part, then at most two fraction digits
  without trailing zeros.
\<close>

definition centi_toString :: "int \<Rightarrow> string" where
  "centi_toString k =
     (let a = nat \<bar>k\<bar>; q = a div 100; r = a mod 100;
          frac = (if r = 0 then []
                  else if r mod 10 = 0 then [CHR ''.'', digit_char (r div 10)]
                  else [CHR ''.'', digit_char (r div 10), digit_char (r mod 10)])
      in (if k < 0 then ''-'' else []) @ Number_toString 10 q @ frac)"

text \<open>\<open>String(v)\<close>, as a template literal or a string concatenation applies it.\<close>

fun js_String :: "jsval \<Rightarrow> string" where
  "js_String JUndefined = ''undefined''"
| "js_String (JNum k) = int_toString k"
| "js_String JNaN = ''NaN''"
| "js_String (JCenti k) = centi_toString k"
| "js_String (JStr s) = s"
| "js_String (JBool b) = (if b then ''true'' else ''false'')"

subsection \<open>Buffers\<close>

text \<open>
  \<open>Buffer.from(array)\<close> keeps the low eight bits of every entry.  Reading an index gives
  \<open>None\<close> (\<open>undefined\<close>) past the end.
\<close>

definition Buffer_from :: "nat list \<Rightarrow> nat list" where
  "Buffer_from xs = map (\<lambda>n. n mod 256) xs"

definition raw_at :: "nat list \<Rightarrow> nat \<Rightarrow> nat option" where
  "raw_at raw i = (if i < length raw then Some (raw ! i) else None)"

definition elem_val :: "nat option \<Rightarrow> jsval" where
  "elem_val e = (case e of None \<Rightarrow> JUndefined | Some n \<Rightarrow> JNum (int n))"

text \<open>\<open>raw[i].toString(16)\<close>: a method call on \<open>undefined\<close> is a TypeError.\<close>

definition toString16 :: "nat option \<Rightarrow> string outcome" where
  "toString16 e = (case e of None \<Rightarrow> Throws TypeError | Some n \<Rightarrow> Returns (Number_toString 16 n))"

text \<open>
  Arithmetic on buffer elements: \<open>undefined\<close> converts to NaN, which every operation
  propagates (\<open>None\<close>).  All other operands are integers far below \<open>2^53\<close>.
\<close>

definition to_num :: "nat option \<Rightarrow> int option" where
  "to_num e = map_option int e"

definition js_times :: "int option \<Rightarrow> int option \<Rightarrow> int option" where
  "js_times a b = (case a of None \<Rightarrow> None | Some x \<Rightarrow> (case b of None \<Rightarrow> None | Some y \<Rightarrow> Some (x * y)))"

definition js_plus :: "int option \<Rightarrow> int option \<Rightarrow> int option" where
  "js_plus a b = (case a of None \<Rightarrow> None | Some x \<Rightarrow> (case b of None \<Rightarrow> None | Some y \<Rightarrow> Some (x + y)))"

definition num_val :: "int option \<Rightarrow> jsval" where
  "num_val a = (case a of None \<Rightarrow> JNaN | Some x \<Rightarrow> JNum x)"

text \<open>\<open>raw[i]*256**3 + raw[i + 1]*256**2 + raw[i + 2]*256 + raw[i + 3]\<close>\<close>

definition be32 :: "nat list \<Rightarrow> nat \<Rightarrow> jsval" where
  "be32 raw i =
     num_val (js_plus (js_plus (js_plus (js_times (to_num (raw_at raw i)) (Some (256 ^ 3)))
                                        (js_times (to_num (raw_at raw (i + 1))) (Some (256 ^ 2))))
                               (js_times (to_num (raw_at raw (i + 2))) (Some 256)))
                      (to_num (raw_at raw (i + 3))))"

text \<open>\<open>raw[i]*256 + raw[i+1]\<close>\<close>

definition be16 :: "nat list \<Rightarrow> nat \<Rightarrow> jsval" where
  "be16 raw i =
     num_val (js_plus (js_times (to_num (raw_at raw i)) (Some 256)) (to_num (raw_at raw (i + 1))))"

section \<open>The base uplink decoder (status and data frames)\<close>

text \<open>
  The loop \<open>for (j = i+1; j < raw.byteLength; j ++) name = name+raw[j].toString(16)\<close>.
\<close>

function name_loop :: "nat list \<Rightarrow> nat \<Rightarrow> string \<Rightarrow> string outcome" where
  "name_loop raw j name =
     (if j < length raw
      then (case toString16 (raw_at raw j) of
              Throws e \<Rightarrow> Throws e
            | Returns h \<Rightarrow> name_loop raw (j + 1) (name @ h))
      else Returns name)"
  by pat_completeness auto
termination
  by (relation "measure (\<lambda>(raw, j, name). length raw - j)") auto

declare name_loop.simps [simp del]

definition status_frame :: "nat list \<Rightarrow> obj \<Rightarrow> decoded outcome" where
  "status_frame raw d0 =
     (let d = set_prop d0 ''frame_type'' (JStr ''Status frame'') in
      if length raw < 13
      then Returns \<lparr>errors = [''Invalid uplink payload: index out of bounds when reading status frame''],
                    warnings = [], data = None\<rparr>
      else
        let i = 1 in
        bind (toString16 (raw_at raw i)) (\<lambda>h1.
        bind (toString16 (raw_at raw (i + 1))) (\<lambda>h2.
        bind (toString16 (raw_at raw (i + 2))) (\<lambda>h3.
        bind (toString16 (raw_at raw (i + 3))) (\<lambda>h4.
        let d = set_prop d ''device_id'' (JStr (''00'' @ h1 @ h2 @ h3 @ h4));
            i = i + 4;
            d = set_prop d ''port'' (elem_val (raw_at raw i));
            i = i + 1;
            d = set_prop d ''device_date_time'' (be32 raw i);
            i = i + 4
        in
        bind (toString16 (raw_at raw i)) (\<lambda>f1.
        bind (toString16 (raw_at raw (i + 1))) (\<lambda>f2.
        bind (toString16 (raw_at raw (i + 2))) (\<lambda>f3.
        let d = set_prop d ''firmware'' (JStr (f1 @ ''.'' @ f2 @ ''.'' @ f3));
            i = i + 3
        in
        bind (toString16 (raw_at raw i)) (\<lambda>name.
        bind (name_loop raw (i + 1) name) (\<lambda>name.
        Returns \<lparr>errors = [], warnings = [],
                 data = Some (set_prop d ''name'' (JStr name))\<rparr>))))))))))"

text \<open>\<open>`${raw[i]}.${raw[i + 1]}.${raw[i + 2]}.${raw[i + 3]}`\<close>\<close>

definition dotted :: "nat list \<Rightarrow> nat \<Rightarrow> string" where
  "dotted raw i =
     js_String (elem_val (raw_at raw i)) @ ''.'' @ js_String (elem_val (raw_at raw (i + 1))) @ ''.'' @
     js_String (elem_val (raw_at raw (i + 2))) @ ''.'' @ js_String (elem_val (raw_at raw (i + 3)))"

definition data_frame :: "nat list \<Rightarrow> obj \<Rightarrow> decoded outcome" where
  "data_frame raw d0 =
     (let d = set_prop d0 ''frame_type'' (JStr ''Data frame'') in
      if length raw < 14
      then Returns \<lparr>errors = [''Invalid uplink payload: index out of bounds when reading data frame''],
                    warnings = [], data = None\<rparr>
      else
        let i = 1;
            d = set_prop d ''tcp_ip'' (JStr (dotted raw i));
            i = i + 4;
            d = set_prop d ''tcp_port'' (be16 raw i);
            i = i + 2;
            d = set_prop d ''slave_id'' (elem_val (raw_at raw i));
            i = i + 1;
            d = set_prop d ''modbus'' (elem_val (raw_at raw i));
            i = i + 1;
            d = set_prop d ''start_value'' (be16 raw i);
            i = i + 2;
            d = set_prop d ''registers_quiered'' (be16 raw i);
            i = i + 2;
            d = set_prop d ''data_bytes'' (elem_val (raw_at raw i));
            i = i + 1
        in
        if raw_at raw 7 = Some 0x0a then
          let d = set_prop d ''c1'' (be32 raw i);
              d = set_prop d ''frame_type'' (JStr ''Data frame - GAS METER'')
          in Returns \<lparr>errors = [], warnings = [], data = Some d\<rparr>
        else if raw_at raw 7 = Some 0x0b then
          let d = set_prop d ''c1'' (be32 raw i);
              i = i + 4;
              d = set_prop d ''c2'' (be32 raw i);
              d = set_prop d ''frame_type'' (JStr ''Data frame - WATER METER'')
          in Returns \<lparr>errors = [], warnings = [], data = Some d\<rparr>
        else if raw_at raw 7 = Some 0x0c then
          let d = set_prop d ''ea'' (be32 raw i);
              i = i + 4;
              d = set_prop d ''er'' (be32 raw i);
              d = set_prop d ''frame_type'' (JStr ''Data frame - ENERGY METER'')
          in Returns \<lparr>errors = [], warnings = [], data = Some d\<rparr>
        else if raw_at raw 7 = Some 0xf7 then
          let d = set_prop d ''ea_imp'' (be32 raw i);
              i = i + 4;
              d = set_prop d ''er_ind_imp'' (be32 raw i);
              i = i + 4;
              d = set_prop d ''er_cap_imp'' (be32 raw i);
              i = i + 4;
              d = set_prop d ''es_imp'' (be32 raw i);
              d = set_prop d ''frame_type'' (JStr ''Data frame - IMPORTED ENERGY'')
          in Returns \<lparr>errors = [], warnings = [], data = Some d\<rparr>
        else Returns \<lparr>errors = [''Invalid uplink payload: unknown data frame type''],
                      warnings = [], data = None\<rparr>)"

text \<open>
  \<open>decodeUplink\<close> of the base variant.  Only the unknown-frame-type branch returns
  without deleting \<open>result.data\<close>, which is still the empty object there.
\<close>

definition decodeUplink :: "nat list \<Rightarrow> decoded outcome" where
  "decodeUplink input_bytes =
     (let raw = Buffer_from input_bytes in
      if length raw > 30
      then Returns \<lparr>errors = [''Invalid uplink payload: length exceeds 30 bytes''],
                    warnings = [], data = None\<rparr>
      else if raw_at raw 0 = Some 0x11 then status_frame raw []
      else if raw_at raw 0 = Some 0x01 then data_frame raw []
      else Returns \<lparr>errors = [''Invalid uplink payload: unknown frame type''],
                    warnings = [], data = Some []\<rparr>)"

section \<open>The hex-view variant of the uplink decoder\<close>

text \<open>
  \<open>input.bytes.toString(16)\<close> is \<open>Array.prototype.toString\<close>, which ignores its argument
  and joins the decimal renderings of the entries with commas.  \<open>Buffer.from\<close> of that
  (ASCII) string is the list of its character codes.
\<close>

fun join_comma :: "string list \<Rightarrow> string" where
  "join_comma [] = []"
| "join_comma [x] = x"
| "join_comma (x # y # ys) = x @ '','' @ join_comma (y # ys)"

definition Array_toString :: "nat list \<Rightarrow> string" where
  "Array_toString xs = join_comma (map (Number_toString 10) xs)"

definition Buffer_from_string :: "string \<Rightarrow> nat list" where
  "Buffer_from_string s = map of_char s"

text \<open>
  The loop \<open>for (j = i; j < n; j ++) result.data.name = `${result.data.name}${rawHEX[j]}`\<close>,
  with \<open>n\<close> the bound the variant uses.
\<close>

function hex_name_loop :: "nat \<Rightarrow> nat list \<Rightarrow> nat \<Rightarrow> obj \<Rightarrow> obj" where
  "hex_name_loop n rawHEX j d =
     (if j < n
      then hex_name_loop n rawHEX (j + 1)
             (set_prop d ''name''
                (JStr (js_String (get_prop d ''name'') @ js_String (elem_val (raw_at rawHEX j)))))
      else d)"
  by pat_completeness auto
termination
  by (relation "measure (\<lambda>(n, rawHEX, j, d). n - j)") auto

declare hex_name_loop.simps [simp del]

text \<open>
  In the outer \<open>default\<close> branch the identifier \<open>i\<close> is not in scope: both declarations
  \<open>let i = 1\<close> are local to the \<open>else\<close> blocks of the two cases, and the module never
  assigns a global \<open>i\<close> (the only implicit global it creates is \<open>j\<close>).  Reading it is a
  ReferenceError.
\<close>

definition undeclared_i :: "nat outcome" where
  "undeclared_i = Throws ReferenceError"

definition status_frame_hex :: "nat list \<Rightarrow> nat list \<Rightarrow> obj \<Rightarrow> decoded outcome" where
  "status_frame_hex raw rawHEX d0 =
     (let d = set_prop d0 ''frame_type'' (JStr ''Status frame'') in
      if length rawHEX < 28
      then Returns \<lparr>errors = [''Invalid uplink payload: index out of bounds when reading Device ID''],
                    warnings = [], data = None\<rparr>
      else
        let i = 1;
            d = set_prop d ''device_id''
                  (JStr (js_String (elem_val (raw_at rawHEX i)) @ js_String (elem_val (raw_at rawHEX (i + 1))) @
                         js_String (elem_val (raw_at rawHEX (i + 2))) @ js_String (elem_val (raw_at rawHEX (i + 3)))));
            i = i + 4;
            d = set_prop d ''port'' (JStr (js_String (elem_val (raw_at rawHEX i))));
            i = i + 1;
            d = set_prop d ''device_date_time'' (be32 raw i);
            i = i + 4;
            d = set_prop d ''firmware''
                  (JStr (js_String (elem_val (raw_at rawHEX i)) @ js_String (elem_val (raw_at rawHEX (i + 1))) @
                         js_String (elem_val (raw_at rawHEX (i + 2)))));
            i = i + 3
        in Returns \<lparr>errors = [], warnings = [],
                    data = Some (hex_name_loop (length rawHEX) rawHEX i d)\<rparr>)"

definition data_frame_hex :: "nat list \<Rightarrow> nat list \<Rightarrow> obj \<Rightarrow> decoded outcome" where
  "data_frame_hex raw rawHEX d0 =
     (let d = set_prop d0 ''frame_type'' (JStr ''Data frame'') in
      if length rawHEX < 14
      then Returns \<lparr>errors = [''Invalid uplink payload: index out of bounds when reading Fram parameters''],
                    warnings = [], data = None\<rparr>
      else
        let i = 1;
            d = set_prop d ''tcp_ip'' (JStr (dotted raw i));
            i = i + 4;
            d = set_prop d ''tcp_port'' (be16 raw i);
            i = i + 2;
            d = set_prop d ''slave_id'' (elem_val (raw_at raw i));
            i = i + 1;
            d = set_prop d ''modbus'' (elem_val (raw_at raw i));
            i = i + 1;
            d = set_prop d ''start_value'' (be16 raw i);
            i = i + 2;
            d = set_prop d ''registers_quiered'' (be16 raw i);
            i = i + 2;
            d = set_prop d ''data_bytes'' (elem_val (raw_at raw i));
            i = i + 1
        in
        if raw_at rawHEX 7 = Some 0x0a then
          let d = set_prop d ''c1'' (be32 raw i)
          in Returns \<lparr>errors = [], warnings = [], data = Some d\<rparr>
        else if raw_at rawHEX 7 = Some 0x0b then
          let d = set_prop d ''c1'' (be32 raw i);
              i = i + 4;
              d = set_prop d ''c2'' (be32 raw i)
          in Returns \<lparr>errors = [], warnings = [], data = Some d\<rparr>
        else if raw_at rawHEX 7 = Some 0x0c then
          let d = set_prop d ''ea'' (be32 raw i);
              i = i + 4;
              d = set_prop d ''er'' (be32 raw i)
          in Returns \<lparr>errors = [], warnings = [], data = Some d\<rparr>
        else if raw_at rawHEX 7 = Some 0xf7 then
          let d = set_prop d ''ea_imp'' (be32 raw i);
              i = i + 4;
              d = set_prop d ''er_ind_imp'' (be32 raw i);
              i = i + 4;
              d = set_prop d ''er_cap_imp'' (be32 raw i);
              i = i + 4;
              d = set_prop d ''es_imp'' (be32 raw i)
          in Returns \<lparr>errors = [], warnings = [], data = Some d\<rparr>
        else Returns \<lparr>errors = [''Invalid uplink payload: unknown id '' @ [CHR 0x27] @
                                js_String (elem_val (raw_at raw i)) @ [CHR 0x27]],
                      warnings = [], data = None\<rparr>)"

definition decodeUplink_hex :: "nat list \<Rightarrow> decoded outcome" where
  "decodeUplink_hex input_bytes =
     (let raw = Buffer_from input_bytes;
          rawHEX = Buffer_from_string (Array_toString input_bytes) in
      if length raw > 30
      then Returns \<lparr>errors = [''Invalid uplink payload: length exceeds 30 bytes''],
                    warnings = [], data = None\<rparr>
      else if raw_at rawHEX 0 = Some 0x11 then status_frame_hex raw rawHEX []
      else if raw_at rawHEX 0 = Some 0x01 then data_frame_hex raw rawHEX []
      else bind undeclared_i (\<lambda>i.
             Returns \<lparr>errors = [''Invalid uplink payload: unknown id '' @ [CHR 0x27] @
                                 js_String (elem_val (raw_at raw i)) @ [CHR 0x27]],
                       warnings = [], data = None\<rparr>))"

section \<open>The sample driver\<close>

subsection \<open>Buffer accessors\<close>

text \<open>
  The \<open>read\<close> and \<open>write\<close> methods of a Buffer check their offset (and the written value)
  and throw a RangeError otherwise.
\<close>

definition readUInt8 :: "nat list \<Rightarrow> nat \<Rightarrow> int outcome" where
  "readUInt8 raw off =
     (if off + 1 \<le> length raw then Returns (int (raw ! off)) else Throws RangeError)"

definition readInt8 :: "nat list \<Rightarrow> nat \<Rightarrow> int outcome" where
  "readInt8 raw off =
     (if off + 1 \<le> length raw
      then Returns (let v = int (raw ! off) in if v \<ge> 128 then v - 256 else v)
      else Throws RangeError)"

definition readInt16BE :: "nat list \<Rightarrow> nat \<Rightarrow> int outcome" where
  "readInt16BE raw off =
     (if off + 2 \<le> length raw
      then Returns (let v = int (raw ! off) * 256 + int (raw ! (off + 1))
                    in if v \<ge> 32768 then v - 65536 else v)
      else Throws RangeError)"

definition writeUInt8 :: "nat list \<Rightarrow> int \<Rightarrow> nat \<Rightarrow> nat list outcome" where
  "writeUInt8 raw v off =
     (if v > 255 \<or> v < 0 then Throws RangeError
      else if off < length raw then Returns (raw[off := nat v])
      else Throws RangeError)"

subsection \<open>Uplink\<close>

definition failed :: "string \<Rightarrow> decoded" where
  "failed msg = \<lparr>errors = [msg], warnings = [], data = None\<rparr>"

definition unknown_id :: "nat option \<Rightarrow> string" where
  "unknown_id e = ''Invalid uplink payload: unknown id '' @ [CHR 0x27] @ js_String (elem_val e) @ [CHR 0x27]"

text \<open>
  The first loop, \<open>for (i = 1; i < raw.byteLength; i++) switch (raw[i]) ...\<close>.  A \<open>break\<close>
  is followed by the loop's own \<open>i++\<close>.  \<open>Inl\<close> is a \<open>return\<close> from the function, \<open>Inr\<close>
  the object when the loop runs to its end.
\<close>

function status_loop :: "nat list \<Rightarrow> nat list \<Rightarrow> nat \<Rightarrow> obj \<Rightarrow> decoded + obj" where
  "status_loop raw rawHEX i d =
     (if i < length raw then
        if raw_at raw i = Some 0x00 then
          if length raw < i + 4
          then Inl (failed ''Invalid uplink payload: index out of bounds when reading Device ID'')
          else status_loop raw rawHEX (i + 4 + 1)
                 (set_prop d ''device_id''
                    (JStr (js_String (elem_val (raw_at rawHEX i)) @ js_String (elem_val (raw_at rawHEX (i + 1))) @
                           js_String (elem_val (raw_at rawHEX (i + 2))) @ js_String (elem_val (raw_at rawHEX (i + 3))))))
        else if raw_at raw i = Some 0x01 then
          if length raw < i + 1
          then Inl (failed ''Invalid uplink payload: index out of bounds when reading Target Port'')
          else status_loop raw rawHEX (i + 1 + 1)
                 (set_prop d ''port'' (JStr (js_String (elem_val (raw_at rawHEX i)))))
        else if raw_at raw i = Some 0x02 then
          if length raw < i + 4
          then Inl (failed ''Invalid uplink payload: index out of bounds when reading Device Date Time'')
          else status_loop raw rawHEX (i + 4 + 1) (set_prop d ''device_date_time'' (be32 raw i))
        else if raw_at raw i = Some 0x03 then
          if length raw < i + 3
          then Inl (failed ''Invalid uplink payload: index out of bounds when reading Firmware Version'')
          else status_loop raw rawHEX (i + 3 + 1)
                 (set_prop d ''firmware''
                    (JStr (js_String (elem_val (raw_at rawHEX i)) @ js_String (elem_val (raw_at rawHEX (i + 1))) @
                           js_String (elem_val (raw_at rawHEX (i + 2))))))
        else if raw_at raw i = Some 0x04 then
          Inl \<lparr>errors = [], warnings = [], data = Some (hex_name_loop (length raw) rawHEX i d)\<rparr>
        else Inl (failed (unknown_id (raw_at raw i)))
      else Inr d)"
  by pat_completeness auto
termination
  by (relation "measure (\<lambda>(raw, rawHEX, i, d). length raw - i)") auto

declare status_loop.simps [simp del]

text \<open>The second loop, \<open>for (i = 0; i < raw.byteLength; i++) switch (raw[i]) ...\<close>.\<close>

function tag_loop :: "nat list \<Rightarrow> nat \<Rightarrow> obj \<Rightarrow> decoded outcome" where
  "tag_loop raw i d =
     (if i < length raw then
        if raw_at raw i = Some 0x00 then
          if length raw < i + 3
          then Returns (failed ''Invalid uplink payload: index out of bounds when reading temperature'')
          else (case readInt16BE raw (i + 1) of
                  Throws e \<Rightarrow> Throws e
                | Returns v \<Rightarrow> tag_loop raw (i + 2 + 1) (set_prop d ''temperature'' (JCenti v)))
        else if raw_at raw i = Some 0x01 then
          if length raw < i + 3
          then Returns (failed ''Invalid uplink payload: index out of bounds when reading humidity'')
          else (case readInt16BE raw (i + 1) of
                  Throws e \<Rightarrow> Throws e
                | Returns v \<Rightarrow> tag_loop raw (i + 2 + 1) (set_prop d ''humidity'' (JCenti v)))
        else if raw_at raw i = Some 0x02 then
          (case readInt8 raw (i + 1) of
             Throws e \<Rightarrow> Throws e
           | Returns v \<Rightarrow> tag_loop raw (i + 1 + 1) (set_prop d ''pulseCounter'' (JNum v)))
        else Returns (failed (unknown_id (raw_at raw i)))
      else Returns \<lparr>errors = [], warnings = [], data = Some d\<rparr>)"
  by pat_completeness auto
termination
  by (relation "measure (\<lambda>(raw, i, d). length raw - i)") auto

declare tag_loop.simps [simp del]

text \<open>
  The condition \<open>raw[0] = 17\<close> is an assignment: it stores 17 in the first byte (nothing
  is stored in an empty buffer) and its value, 17, is true, so the first loop always
  runs.
\<close>

definition decodeUplink_sample :: "nat list \<Rightarrow> decoded outcome" where
  "decodeUplink_sample input_bytes =
     (let raw = Buffer_from input_bytes;
          rawHEX = Buffer_from_string (Array_toString input_bytes) in
      if length raw > 30
      then Returns \<lparr>errors = [''Invalid uplink payload: length exceeds 30 bytes''],
                    warnings = [], data = None\<rparr>
      else
        let raw = raw[0 := 17];
            d = set_prop [] ''frame'' (JStr ''Status frame'')
        in (case status_loop raw rawHEX 1 d of
              Inl result \<Rightarrow> Returns result
            | Inr d \<Rightarrow> tag_loop raw 0 d))"

subsection \<open>Downlink\<close>

text \<open>
  The fields of \<open>input.data\<close> the encoder reads: a number and a boolean, \<open>None\<close> when the
  property is undefined.
\<close>

record downlink =
  pulseCounterThreshold :: "int option"
  alarm :: "bool option"

text \<open>The encoder from \<open>if (typeof input.data.alarm !== "undefined")\<close> on.\<close>

definition encode_alarm :: "downlink \<Rightarrow> nat list \<Rightarrow> nat \<Rightarrow> encoded outcome" where
  "encode_alarm input_data raw index =
     bind (case alarm input_data of
             None \<Rightarrow> Returns (raw, index)
           | Some a \<Rightarrow>
               bind (writeUInt8 raw 1 index) (\<lambda>raw.
               let index = index + 1 in
               bind (writeUInt8 raw (if a = True then 1 else 0) index) (\<lambda>raw.
               let index = index + 1 in Returns (raw, index))))
       (\<lambda>(raw, index).
          Returns \<lparr>errors = [], warnings = [], bytes = Some (take index raw), fPort = Some 16\<rparr>)"

definition encodeDownlink :: "downlink \<Rightarrow> encoded outcome" where
  "encodeDownlink input_data =
     (let raw = replicate 4 0; index = 0 in
      case pulseCounterThreshold input_data of
        None \<Rightarrow> encode_alarm input_data raw index
      | Some v \<Rightarrow>
          if v > 255
          then Returns \<lparr>errors = [''Invalid downlink: pulseCounterThreshold cannot exceed 255''],
                        warnings = [], bytes = None, fPort = None\<rparr>
          else
            bind (writeUInt8 raw 0 index) (\<lambda>raw.
            let index = index + 1 in
            bind (writeUInt8 raw v index) (\<lambda>raw.
            let index = index + 1 in encode_alarm input_data raw index)))"

text \<open>The loop \<open>for (i = 0; i < raw.byteLength; i += 2) switch (raw[i]) ...\<close>.\<close>

function downlink_loop :: "nat list \<Rightarrow> nat \<Rightarrow> obj \<Rightarrow> decoded outcome" where
  "downlink_loop raw i d =
     (if i < length raw then
        if raw_at raw i = Some 0x00 then
          if length raw < i + 2
          then Returns (failed ''Invalid downlink payload: index out of bounds when reading pulseCounterThreshold'')
          else (case readUInt8 raw (i + 1) of
                  Throws e \<Rightarrow> Throws e
                | Returns v \<Rightarrow> downlink_loop raw (i + 2) (set_prop d ''pulseCounterThreshold'' (JNum v)))
        else if raw_at raw i = Some 0x01 then
          if length raw < i + 2
          then Returns (failed ''Invalid downlink payload: index out of bounds when reading alarm'')
          else (case readUInt8 raw (i + 1) of
                  Throws e \<Rightarrow> Throws e
                | Returns v \<Rightarrow> downlink_loop raw (i + 2) (set_prop d ''alarm'' (JBool (v = 1))))
        else Returns (failed (''Invalid downlink payload: unknown id '' @ [CHR 0x27] @
                              js_String (elem_val (raw_at raw i)) @ [CHR 0x27]))
      else Returns \<lparr>errors = [], warnings = [], data = Some d\<rparr>)"
  by pat_completeness auto
termination
  by (relation "measure (\<lambda>(raw, i, d). length raw - i)") auto

declare downlink_loop.simps [simp del]

definition decodeDownlink :: "nat list \<Rightarrow> decoded outcome" where
  "decodeDownlink input_bytes =
     (let raw = Buffer_from input_bytes in
      if length raw > 4
      then Returns \<lparr>errors = [''Invalid downlink payload: length exceeds 4 bytes''],
                    warnings = [], data = None\<rparr>
      else downlink_loop raw 0 [])"

section \<open>Vocabulary of the statements\<close>

text \<open>
  What a successful status-frame decode of the base variant stores, field by field, for
  a buffer of at least 14 bytes.
\<close>

definition status_fields :: "nat list \<Rightarrow> obj" where
  "status_fields raw =
     [(''frame_type'', JStr ''Status frame''),
      (''device_id'', JStr (''00'' @ Number_toString 16 (raw ! 1) @ Number_toString 16 (raw ! 2)
                            @ Number_toString 16 (raw ! 3) @ Number_toString 16 (raw ! 4))),
      (''port'', JNum (int (raw ! 5))),
      (''device_date_time'', JNum (int (raw ! 6) * 256 ^ 3 + int (raw ! 7) * 256 ^ 2
                                   + int (raw ! 8) * 256 + int (raw ! 9))),
      (''firmware'', JStr (Number_toString 16 (raw ! 10) @ ''.'' @ Number_toString 16 (raw ! 11)
                           @ ''.'' @ Number_toString 16 (raw ! 12))),
      (''name'', JStr (concat (map (Number_toString 16) (drop 13 raw))))]"

text \<open>A call succeeded when it returned data and no error.\<close>

definition succeeded :: "decoded outcome \<Rightarrow> bool" where
  "succeeded r = (case r of Throws e \<Rightarrow> False
                  | Returns x \<Rightarrow> errors x = [] \<and> (case data x of None \<Rightarrow> False | Some d \<Rightarrow> True))"

text \<open>\<open>result.data[k]\<close> of a returned result, \<open>undefined\<close> when there is no data.\<close>

definition field_of :: "decoded outcome \<Rightarrow> string \<Rightarrow> jsval" where
  "field_of r k = (case r of Throws e \<Rightarrow> JUndefined
                   | Returns x \<Rightarrow> (case data x of None \<Rightarrow> JUndefined | Some d \<Rightarrow> get_prop d k))"

text \<open>The downlink input as the object a decoder would return for it.\<close>

definition downlink_obj :: "downlink \<Rightarrow> obj" where
  "downlink_obj m =
     (case pulseCounterThreshold m of None \<Rightarrow> [] | Some v \<Rightarrow> [(''pulseCounterThreshold'', JNum v)]) @
     (case alarm m of None \<Rightarrow> [] | Some a \<Rightarrow> [(''alarm'', JBool a)])"

section \<open>Buffers and the name loop\<close>

lemma length_Buffer_from: "length (Buffer_from bs) = length bs"
  by (simp add: Buffer_from_def)

lemma raw_at_Buffer_from:
  "raw_at (Buffer_from bs) i = (if i < length bs then Some (bs ! i mod 256) else None)"
  by (simp add: raw_at_def Buffer_from_def)

lemma Suc_lits:
  "Suc (Suc 0) = 2" "Suc (Suc (Suc 0)) = 3" "Suc (Suc (Suc (Suc 0))) = 4"
  by simp_all

text \<open>The name loop only reads inside the buffer, so it never throws.\<close>

lemma name_loop_drop:
  "name_loop raw j name = Returns (name @ concat (map (Number_toString 16) (drop j raw)))"
proof (induction raw j name rule: name_loop.induct)
  case (1 raw j name)
  show ?case
  proof (cases "j < length raw")
    case True
    then have d: "drop j raw = raw ! j # drop (Suc j) raw"
      by (simp add: Cons_nth_drop_Suc)
    have t: "toString16 (raw_at raw j) = Returns (Number_toString 16 (raw ! j))"
      using True by (simp add: toString16_def raw_at_def)
    show ?thesis
      using True 1[OF True t] by (subst name_loop.simps) (simp add: t d)
  next
    case False
    then show ?thesis by (subst name_loop.simps) simp
  qed
qed

section \<open>The status frame of the base variant\<close>

lemma status_frame_short:
  "length raw < 13 \<Longrightarrow> status_frame raw [] =
     Returns \<lparr>errors = [''Invalid uplink payload: index out of bounds when reading status frame''],
              warnings = [], data = None\<rparr>"
  by (simp add: status_frame_def)

text \<open>
  With exactly 13 bytes the guard \<open>raw.byteLength < 13\<close> lets the frame through, the
  fixed fields take bytes 1 to 12, and the name starts with \<open>raw[13].toString(16)\<close>:
  a method call on \<open>undefined\<close>.
\<close>

lemma status_frame_13: "length raw = 13 \<Longrightarrow> status_frame raw [] = Throws TypeError"
  by (simp add: status_frame_def Let_def raw_at_def toString16_def bind_def)

lemma status_frame_long:
  assumes "14 \<le> length raw"
  shows "status_frame raw [] = Returns \<lparr>errors = [], warnings = [], data = Some (status_fields raw)\<rparr>"
proof -
  have d: "drop 13 raw = raw ! 13 # drop 14 raw"
    using assms Cons_nth_drop_Suc [of 13 raw] by simp
  show ?thesis
    using assms
    by (simp add: status_frame_def Let_def raw_at_def toString16_def bind_def name_loop_drop
        be32_def to_num_def js_times_def js_plus_def num_val_def elem_val_def status_fields_def d
        Suc_lits)
qed

text \<open>
  C4.  For a status frame (first byte 0x11): 12 bytes give the out-of-bounds error and
  no data.  The claim that 13 bytes decode does not hold of the code: the guard admits
  13 bytes, but the name is read from \<open>raw[13]\<close>, so every 13-byte status frame ends
  in a TypeError.  The shortest status frame that decodes has 14 bytes.
\<close>

theorem status_frame_boundary:
  assumes "raw_at (Buffer_from input_bytes) 0 = Some 0x11"
  shows "(length input_bytes = 12 \<longrightarrow>
            decodeUplink input_bytes =
              Returns \<lparr>errors = [''Invalid uplink payload: index out of bounds when reading status frame''],
                       warnings = [], data = None\<rparr>)
       \<and> (length input_bytes = 13 \<longrightarrow> decodeUplink input_bytes = Throws TypeError)
       \<and> (14 \<le> length input_bytes \<and> length input_bytes \<le> 30 \<longrightarrow>
            decodeUplink input_bytes =
              Returns \<lparr>errors = [], warnings = [],
                       data = Some (status_fields (Buffer_from input_bytes))\<rparr>)"
  using assms
  by (simp add: decodeUplink_def Let_def length_Buffer_from status_frame_short status_frame_13
      status_frame_long)

theorem status_frame_boundary_witness:
  "decodeUplink [0x11, 1, 2, 3, 4, 1, 0, 0, 0, 1, 1, 2] =
     Returns \<lparr>errors = [''Invalid uplink payload: index out of bounds when reading status frame''],
              warnings = [], data = None\<rparr>
   \<and> decodeUplink [0x11, 1, 2, 3, 4, 1, 0, 0, 0, 1, 1, 2, 3] = Throws TypeError
   \<and> decodeUplink [0x11, 1, 2, 3, 4, 1, 0, 0, 0, 1, 1, 2, 3, 0xab] =
     Returns \<lparr>errors = [], warnings = [],
              data = Some [(''frame_type'', JStr ''Status frame''),
                           (''device_id'', JStr ''001234''),
                           (''port'', JNum 1),
                           (''device_date_time'', JNum 1),
                           (''firmware'', JStr ''1.2.3''),
                           (''name'', JStr ''ab'')]\<rparr>"
  using status_frame_boundary [of "[0x11, 1, 2, 3, 4, 1, 0, 0, 0, 1, 1, 2]"]
    status_frame_boundary [of "[0x11, 1, 2, 3, 4, 1, 0, 0, 0, 1, 1, 2, 3]"]
    status_frame_boundary [of "[0x11, 1, 2, 3, 4, 1, 0, 0, 0, 1, 1, 2, 3, 0xab]"]
  by (simp add: raw_at_def status_fields_def Buffer_from_def Number_toString.simps digit_char_def)

subsection \<open>The device id\<close>

text \<open>A digit below the length of a prefix of the digit alphabet lies in that prefix.\<close>

lemma digit_char_prefix:
  assumes "n < length xs" and "''0123456789abcdefghijklmnopqrstuvwxyz'' = xs @ ys"
  shows "digit_char n \<in> set xs"
proof -
  have "length (xs @ ys) = 36"
    using assms(2) [symmetric] by simp
  then have "n mod 36 = n"
    using assms(1) by simp
  then have "digit_char n = (xs @ ys) ! n"
    using assms(2) by (simp add: digit_char_def)
  then show ?thesis
    using assms(1) by (simp add: nth_append)
qed

lemma digit_char_hex: "n < 16 \<Longrightarrow> digit_char n \<in> set ''0123456789abcdef''"
  by (rule digit_char_prefix [where ys = "''ghijklmnopqrstuvwxyz''"]) simp_all

lemma hex_chars: "set (Number_toString 16 n) \<subseteq> set ''0123456789abcdef''"
proof (induction n rule: less_induct)
  case (less n)
  show ?case
  proof (cases "n < 16")
    case True
    then show ?thesis
      using digit_char_hex [of n] by (subst Number_toString.simps) simp
  next
    case False
    then have "n div 16 < n" by simp
    from less [OF this] digit_char_hex [of "n mod 16"] False show ?thesis
      by (subst Number_toString.simps) simp
  qed
qed

lemma hex_length: "n < 256 \<Longrightarrow> length (Number_toString 16 n) = (if n < 16 then 1 else 2)"
proof -
  assume n: "n < 256"
  show ?thesis
  proof (cases "n < 16")
    case True
    then show ?thesis by (subst Number_toString.simps) simp
  next
    case False
    then have "n div 16 < 16" using n by simp
    then have "length (Number_toString 16 (n div 16)) = 1"
      by (subst Number_toString.simps) simp
    then show ?thesis using False by (subst Number_toString.simps) simp
  qed
qed

text \<open>
  C8 (as amended).  For every status frame that decodes (first byte 0x11, 14 to 30
  bytes) the device id is the literal \<open>00\<close> followed by the unpadded lowercase
  hexadecimal renderings of bytes 1 to 4: hexadecimal digits only, 10 of them less one
  for each of the four bytes that is below 0x10.
\<close>

theorem device_id_rendering:
  assumes "raw_at (Buffer_from input_bytes) 0 = Some 0x11"
    and "14 \<le> length input_bytes" and "length input_bytes \<le> 30"
  shows "\<exists>s. field_of (decodeUplink input_bytes) ''device_id'' = JStr s
           \<and> succeeded (decodeUplink input_bytes)
           \<and> s = ''00'' @ Number_toString 16 (input_bytes ! 1 mod 256)
                        @ Number_toString 16 (input_bytes ! 2 mod 256)
                        @ Number_toString 16 (input_bytes ! 3 mod 256)
                        @ Number_toString 16 (input_bytes ! 4 mod 256)
           \<and> length s = 10 - length (filter (\<lambda>k. input_bytes ! k mod 256 < 16) [1, 2, 3, 4])
           \<and> set s \<subseteq> set ''0123456789abcdef''"
proof -
  let ?raw = "Buffer_from input_bytes"
  have r: "decodeUplink input_bytes =
             Returns \<lparr>errors = [], warnings = [], data = Some (status_fields ?raw)\<rparr>"
    using assms
    by (simp add: decodeUplink_def Let_def length_Buffer_from status_frame_long)
  have n: "?raw ! 1 = input_bytes ! 1 mod 256" "?raw ! 2 = input_bytes ! 2 mod 256"
    "?raw ! 3 = input_bytes ! 3 mod 256" "?raw ! 4 = input_bytes ! 4 mod 256"
    using assms by (simp_all add: Buffer_from_def)
  have f: "field_of (decodeUplink input_bytes) ''device_id'' =
             JStr (''00'' @ Number_toString 16 (input_bytes ! 1 mod 256)
                        @ Number_toString 16 (input_bytes ! 2 mod 256)
                        @ Number_toString 16 (input_bytes ! 3 mod 256)
                        @ Number_toString 16 (input_bytes ! 4 mod 256))"
    using n by (simp add: r field_of_def get_prop_def status_fields_def)
  have s: "succeeded (decodeUplink input_bytes)"
    by (simp add: r succeeded_def)
  have l: "length (''00'' @ Number_toString 16 (input_bytes ! 1 mod 256)
                        @ Number_toString 16 (input_bytes ! 2 mod 256)
                        @ Number_toString 16 (input_bytes ! 3 mod 256)
                        @ Number_toString 16 (input_bytes ! 4 mod 256))
           = 10 - length (filter (\<lambda>k. input_bytes ! k mod 256 < 16) [1, 2, 3, 4])"
    by (simp add: hex_length)
  have c: "set (''00'' @ Number_toString 16 (input_bytes ! 1 mod 256)
                        @ Number_toString 16 (input_bytes ! 2 mod 256)
                        @ Number_toString 16 (input_bytes ! 3 mod 256)
                        @ Number_toString 16 (input_bytes ! 4 mod 256))
           \<subseteq> set ''0123456789abcdef''"
    using hex_chars [of "input_bytes ! 1 mod 256"] hex_chars [of "input_bytes ! 2 mod 256"]
      hex_chars [of "input_bytes ! 3 mod 256"] hex_chars [of "input_bytes ! 4 mod 256"]
    by simp
  from f s l c show ?thesis by blast
qed

theorem device_id_rendering_witness:
  "succeeded (decodeUplink [0x11, 0x01, 0xa2, 0x03, 0xb4, 1, 0, 0, 0, 1, 1, 2, 3, 0x41])
   \<and> field_of (decodeUplink [0x11, 0x01, 0xa2, 0x03, 0xb4, 1, 0, 0, 0, 1, 1, 2, 3, 0x41]) ''device_id''
       = JStr ''001a23b4''"
  using device_id_rendering [of "[0x11, 0x01, 0xa2, 0x03, 0xb4, 1, 0, 0, 0, 1, 1, 2, 3, 0x41]"]
  by (auto simp: raw_at_def Buffer_from_def Number_toString.simps digit_char_def)

text \<open>
  The claim as stated fails: four bytes of two digits each give ten digits after the
  prefix is added, four bytes of one digit each give six.  Nothing pads.
\<close>

theorem device_id_not_eight_digits:
  "succeeded (decodeUplink [0x11, 0x12, 0x34, 0x56, 0x78, 1, 0, 0, 0, 1, 1, 2, 3, 0x41])
   \<and> field_of (decodeUplink [0x11, 0x12, 0x34, 0x56, 0x78, 1, 0, 0, 0, 1, 1, 2, 3, 0x41]) ''device_id''
       = JStr ''0012345678''
   \<and> length ''0012345678'' = (10::nat)
   \<and> succeeded (decodeUplink [0x11, 1, 2, 3, 4, 1, 0, 0, 0, 1, 1, 2, 3, 0x41])
   \<and> field_of (decodeUplink [0x11, 1, 2, 3, 4, 1, 0, 0, 0, 1, 1, 2, 3, 0x41]) ''device_id''
       = JStr ''001234''
   \<and> length ''001234'' = (6::nat)"
  by code_simp

section \<open>The data frame of the base variant\<close>

text \<open>
  The secondary switch reads \<open>raw[7]\<close>, the byte already stored as \<open>slave_id\<close>.  In the
  scenario's bytes it is 5, so the decoder answers with the unknown-data-frame-type
  error: no \<open>c1\<close>, no success.
\<close>

theorem gas_meter_scenario_rejected:
  "\<not> succeeded (decodeUplink [0x01, 10, 0, 0, 1, 0, 80, 5, 3, 0, 0, 0, 1, 4, 0, 0, 0, 42])
   \<and> field_of (decodeUplink [0x01, 10, 0, 0, 1, 0, 80, 5, 3, 0, 0, 0, 1, 4, 0, 0, 0, 42]) ''c1''
       = JUndefined"
  by code_simp

text \<open>
  C5 (as amended).  On the scenario's bytes \<open>decodeUplink\<close> returns the single error
  \<open>unknown data frame type\<close> and no data.  With byte 7 changed from 5 to \<open>0x0a\<close> it
  takes the gas-meter path and returns the listed fields, \<open>slave_id\<close> being 10.
\<close>

theorem gas_meter_scenario:
  "decodeUplink [0x01, 10, 0, 0, 1, 0, 80, 5, 3, 0, 0, 0, 1, 4, 0, 0, 0, 42] =
     Returns \<lparr>errors = [''Invalid uplink payload: unknown data frame type''],
              warnings = [], data = None\<rparr>
   \<and> decodeUplink [0x01, 10, 0, 0, 1, 0, 80, 0x0a, 3, 0, 0, 0, 1, 4, 0, 0, 0, 42] =
     Returns \<lparr>errors = [], warnings = [],
              data = Some [(''frame_type'', JStr ''Data frame - GAS METER''),
                           (''tcp_ip'', JStr ''10.0.0.1''),
                           (''tcp_port'', JNum 80),
                           (''slave_id'', JNum 10),
                           (''modbus'', JNum 3),
                           (''start_value'', JNum 0),
                           (''registers_quiered'', JNum 1),
                           (''data_bytes'', JNum 4),
                           (''c1'', JNum 42)]\<rparr>"
  by code_simp

section \<open>The length guard\<close>

text \<open>
  C6.  An input of more than 30 bytes makes each of the three uplink decoders return
  exactly one error, the length message, and no \<open>data\<close>; nothing else of the input is
  looked at.
\<close>

theorem payload_too_long:
  assumes "length input_bytes > 30"
  shows "decodeUplink input_bytes =
           Returns \<lparr>errors = [''Invalid uplink payload: length exceeds 30 bytes''],
                    warnings = [], data = None\<rparr>
       \<and> decodeUplink_hex input_bytes =
           Returns \<lparr>errors = [''Invalid uplink payload: length exceeds 30 bytes''],
                    warnings = [], data = None\<rparr>
       \<and> decodeUplink_sample input_bytes =
           Returns \<lparr>errors = [''Invalid uplink payload: length exceeds 30 bytes''],
                    warnings = [], data = None\<rparr>"
  using assms
  by (simp add: decodeUplink_def decodeUplink_hex_def decodeUplink_sample_def Let_def
      length_Buffer_from)

theorem payload_too_long_witness:
  "length (replicate 31 (0::nat)) > 30
   \<and> decodeUplink (replicate 31 0) =
           Returns \<lparr>errors = [''Invalid uplink payload: length exceeds 30 bytes''],
                    warnings = [], data = None\<rparr>
   \<and> decodeUplink_hex (replicate 31 0) =
           Returns \<lparr>errors = [''Invalid uplink payload: length exceeds 30 bytes''],
                    warnings = [], data = None\<rparr>
   \<and> decodeUplink_sample (replicate 31 0) =
           Returns \<lparr>errors = [''Invalid uplink payload: length exceeds 30 bytes''],
                    warnings = [], data = None\<rparr>"
  using payload_too_long [of "replicate 31 0"] by simp

section \<open>The hex-view variant never decodes\<close>

lemma digit_char_decimal:
  assumes "n < 10"
  shows "48 \<le> (of_char (digit_char n) :: nat) \<and> (of_char (digit_char n) :: nat) \<le> 57"
proof -
  have "digit_char n \<in> set ''0123456789''"
    using assms by (intro digit_char_prefix [where ys = "''abcdefghijklmnopqrstuvwxyz''"]) simp_all
  then show ?thesis by auto
qed

text \<open>A decimal rendering starts with a digit.\<close>

lemma decimal_starts_with_digit:
  "\<exists>c cs. Number_toString 10 n = c # cs \<and> 48 \<le> (of_char c :: nat) \<and> (of_char c :: nat) \<le> 57"
proof (induction n rule: less_induct)
  case (less n)
  show ?case
  proof (cases "n < 10")
    case True
    then show ?thesis
      using digit_char_decimal [of n] by (subst Number_toString.simps) simp
  next
    case False
    then have "n div 10 < n" by simp
    from less [OF this] obtain c cs where
      "Number_toString 10 (n div 10) = c # cs" "48 \<le> (of_char c :: nat)" "(of_char c :: nat) \<le> 57"
      by blast
    then show ?thesis using False by (subst Number_toString.simps) simp
  qed
qed

lemma join_comma_Cons: "\<exists>r. join_comma (x # xs) = x @ r"
  by (cases xs) simp_all

text \<open>
  The first byte of the hex view is the code of a decimal digit, or missing when the
  input is empty.
\<close>

lemma rawHEX_first:
  "case raw_at (Buffer_from_string (Array_toString input_bytes)) 0 of
     None \<Rightarrow> input_bytes = []
   | Some c \<Rightarrow> 48 \<le> c \<and> c \<le> 57"
proof (cases input_bytes)
  case Nil
  then show ?thesis
    by (simp add: Array_toString_def Buffer_from_string_def raw_at_def)
next
  case (Cons b bs)
  obtain c cs where c: "Number_toString 10 b = c # cs" "48 \<le> (of_char c :: nat)" "(of_char c :: nat) \<le> 57"
    using decimal_starts_with_digit [of b] by blast
  obtain r where "join_comma (Number_toString 10 b # map (Number_toString 10) bs) = Number_toString 10 b @ r"
    using join_comma_Cons by blast
  then show ?thesis
    using c Cons by (simp add: Array_toString_def Buffer_from_string_def raw_at_def)
qed

text \<open>
  C9.  In the hex-view variant the outer switch reads the first byte of the hex view: the
  code of a decimal digit (48 to 57), or nothing when the input is empty.  It is never
  0x11 or 0x01, so every input of at most 30 bytes reaches the \<open>default\<close> branch, which
  reads the undeclared \<open>i\<close> and throws; no such input is ever decoded.
\<close>

theorem decodeUplink_hex_throws:
  assumes "length input_bytes \<le> 30"
  shows "(case raw_at (Buffer_from_string (Array_toString input_bytes)) 0 of
            None \<Rightarrow> input_bytes = []
          | Some c \<Rightarrow> 48 \<le> c \<and> c \<le> 57)
       \<and> decodeUplink_hex input_bytes = Throws ReferenceError"
proof -
  let ?h = "raw_at (Buffer_from_string (Array_toString input_bytes)) 0"
  have f: "case ?h of None \<Rightarrow> input_bytes = [] | Some c \<Rightarrow> 48 \<le> c \<and> c \<le> 57"
    by (rule rawHEX_first)
  then have "?h \<noteq> Some 0x11" "?h \<noteq> Some 0x01"
    by (auto split: option.splits)
  then have "decodeUplink_hex input_bytes = Throws ReferenceError"
    using assms
    by (simp add: decodeUplink_hex_def Let_def length_Buffer_from undeclared_i_def bind_def)
  with f show ?thesis by simp
qed

theorem decodeUplink_hex_throws_witness:
  "raw_at (Buffer_from_string (Array_toString [0x11, 1, 2, 3, 4, 1, 0, 0, 0, 1, 1, 2, 3, 4])) 0 = Some 49
   \<and> decodeUplink_hex [0x11, 1, 2, 3, 4, 1, 0, 0, 0, 1, 1, 2, 3, 4] = Throws ReferenceError
   \<and> raw_at (Buffer_from_string (Array_toString [])) 0 = None
   \<and> decodeUplink_hex [] = Throws ReferenceError"
  using decodeUplink_hex_throws [of "[0x11, 1, 2, 3, 4, 1, 0, 0, 0, 1, 1, 2, 3, 4]"]
    decodeUplink_hex_throws [of "[]"]
  by (simp add: Array_toString_def Buffer_from_string_def raw_at_def Number_toString.simps digit_char_def)

section \<open>Downlink encoding\<close>

text \<open>
  C7.  \<open>encodeDownlink\<close> on \<open>{pulseCounterThreshold: 10}\<close> returns the bytes \<open>[0x00, 10]\<close>
  with \<open>fPort = 16\<close> and no errors; on \<open>{pulseCounterThreshold: 300}\<close> it returns the
  out-of-range error and a result without \<open>bytes\<close> (and without \<open>fPort\<close>).
\<close>

theorem encode_threshold_scenarios:
  "encodeDownlink \<lparr>pulseCounterThreshold = Some 10, alarm = None\<rparr> =
     Returns \<lparr>errors = [], warnings = [], bytes = Some [0x00, 10], fPort = Some 16\<rparr>
   \<and> encodeDownlink \<lparr>pulseCounterThreshold = Some 300, alarm = None\<rparr> =
     Returns \<lparr>errors = [''Invalid downlink: pulseCounterThreshold cannot exceed 255''],
              warnings = [], bytes = None, fPort = None\<rparr>"
  by code_simp

text \<open>
  C10.  The threshold is only compared with 255.  For \<open>{pulseCounterThreshold: -1}\<close> the
  comparison passes and \<open>writeUInt8\<close> throws a RangeError: the call ends in an uncaught
  exception, not in an error result.
\<close>

theorem encode_negative_threshold_throws:
  "encodeDownlink \<lparr>pulseCounterThreshold = Some (- 1), alarm = None\<rparr> = Throws RangeError"
  by code_simp

section \<open>Downlink round trip\<close>

lemma replicate_4: "replicate 4 x = [x, x, x, x]"
  by (simp add: numeral_eq_Suc)

lemma downlink_loop_end:
  "length raw \<le> i \<Longrightarrow> downlink_loop raw i d = Returns \<lparr>errors = [], warnings = [], data = Some d\<rparr>"
  by (subst downlink_loop.simps) simp

lemma downlink_loop_threshold:
  "i + 2 \<le> length raw \<Longrightarrow> raw ! i = 0 \<Longrightarrow>
   downlink_loop raw i d =
     downlink_loop raw (i + 2) (set_prop d ''pulseCounterThreshold'' (JNum (int (raw ! (i + 1)))))"
  by (subst downlink_loop.simps) (simp add: raw_at_def readUInt8_def)

lemma downlink_loop_alarm:
  "i + 2 \<le> length raw \<Longrightarrow> raw ! i = 1 \<Longrightarrow>
   downlink_loop raw i d =
     downlink_loop raw (i + 2) (set_prop d ''alarm'' (JBool (raw ! (i + 1) = 1)))"
  by (subst downlink_loop.simps) (simp add: raw_at_def readUInt8_def)

text \<open>What the encoder writes for an input within range.\<close>

lemma encodeDownlink_bytes:
  assumes "case pulseCounterThreshold m of None \<Rightarrow> True | Some v \<Rightarrow> 0 \<le> v \<and> v \<le> 255"
  shows "encodeDownlink m =
           Returns \<lparr>errors = [], warnings = [],
                    bytes = Some ((case pulseCounterThreshold m of None \<Rightarrow> [] | Some v \<Rightarrow> [0, nat v]) @
                                  (case alarm m of None \<Rightarrow> [] | Some a \<Rightarrow> [1, if a then 1 else 0])),
                    fPort = Some 16\<rparr>"
  using assms
  by (simp add: encodeDownlink_def encode_alarm_def bind_def writeUInt8_def replicate_4 Let_def
      split: option.splits)

lemma decodeDownlink_empty:
  "decodeDownlink [] = Returns \<lparr>errors = [], warnings = [], data = Some []\<rparr>"
  by (simp add: decodeDownlink_def Buffer_from_def downlink_loop_end)

lemma decodeDownlink_threshold:
  "v < 256 \<Longrightarrow> decodeDownlink [0, v] =
     Returns \<lparr>errors = [], warnings = [], data = Some [(''pulseCounterThreshold'', JNum (int v))]\<rparr>"
  by (simp add: decodeDownlink_def Buffer_from_def downlink_loop_threshold downlink_loop_end)

lemma decodeDownlink_alarm:
  "decodeDownlink [1, if a then 1 else 0] =
     Returns \<lparr>errors = [], warnings = [], data = Some [(''alarm'', JBool a)]\<rparr>"
  by (cases a) (simp_all add: decodeDownlink_def Buffer_from_def downlink_loop_alarm downlink_loop_end)

lemma decodeDownlink_both:
  "v < 256 \<Longrightarrow> decodeDownlink [0, v, 1, if a then 1 else 0] =
     Returns \<lparr>errors = [], warnings = [],
              data = Some [(''pulseCounterThreshold'', JNum (int v)), (''alarm'', JBool a)]\<rparr>"
  by (cases a)
    (simp_all add: decodeDownlink_def Buffer_from_def downlink_loop_threshold downlink_loop_alarm
      downlink_loop_end)

text \<open>
  C3.  For every input holding any subset of a threshold in \<open>[0, 255]\<close> and a boolean
  alarm, \<open>encodeDownlink\<close> returns bytes with port 16 and no errors, and
  \<open>decodeDownlink\<close> of those bytes returns exactly the input's fields, with no errors.
\<close>

theorem downlink_roundtrip:
  assumes "case pulseCounterThreshold m of None \<Rightarrow> True | Some v \<Rightarrow> 0 \<le> v \<and> v \<le> 255"
  shows "\<exists>bs. encodeDownlink m =
                Returns \<lparr>errors = [], warnings = [], bytes = Some bs, fPort = Some 16\<rparr>
            \<and> decodeDownlink bs =
                Returns \<lparr>errors = [], warnings = [], data = Some (downlink_obj m)\<rparr>"
proof -
  let ?bs = "(case pulseCounterThreshold m of None \<Rightarrow> [] | Some v \<Rightarrow> [0, nat v]) @
             (case alarm m of None \<Rightarrow> [] | Some a \<Rightarrow> [1, if a then 1 else 0])"
  have "decodeDownlink ?bs = Returns \<lparr>errors = [], warnings = [], data = Some (downlink_obj m)\<rparr>"
  proof (cases "pulseCounterThreshold m")
    case None
    show ?thesis
    proof (cases "alarm m")
      case n: None
      then show ?thesis
        using None decodeDownlink_empty by (simp add: downlink_obj_def)
    next
      case (Some a)
      then show ?thesis
        using None decodeDownlink_alarm [of a] by (simp add: downlink_obj_def)
    qed
  next
    case (Some v)
    then have "0 \<le> v" "v \<le> 255" using assms by simp_all
    then have v: "nat v < 256" "int (nat v) = v" by arith+
    show ?thesis
    proof (cases "alarm m")
      case None
      then show ?thesis
        using Some v decodeDownlink_threshold [of "nat v"] by (simp add: downlink_obj_def)
    next
      case a: (Some a)
      then show ?thesis
        using Some v decodeDownlink_both [of "nat v" a] by (simp add: downlink_obj_def)
    qed
  qed
  with encodeDownlink_bytes [OF assms] show ?thesis by blast
qed

theorem downlink_roundtrip_witness:
  "encodeDownlink \<lparr>pulseCounterThreshold = Some 200, alarm = Some True\<rparr> =
     Returns \<lparr>errors = [], warnings = [], bytes = Some [0, 200, 1, 1], fPort = Some 16\<rparr>
   \<and> decodeDownlink [0, 200, 1, 1] =
     Returns \<lparr>errors = [], warnings = [],
              data = Some [(''pulseCounterThreshold'', JNum 200), (''alarm'', JBool True)]\<rparr>"
  using downlink_roundtrip [of "\<lparr>pulseCounterThreshold = Some 200, alarm = Some True\<rparr>"]
    encodeDownlink_bytes [of "\<lparr>pulseCounterThreshold = Some 200, alarm = Some True\<rparr>"]
  by (auto simp: downlink_obj_def)

section \<open>Uncaught exceptions and unknown frame types\<close>

text \<open>
  The base variant reports every other leading byte, and the empty input, as an unknown
  frame type; \<open>result.data\<close> is still the empty object there.
\<close>

lemma decodeUplink_unknown_frame_type:
  assumes "length input_bytes \<le> 30"
    and "raw_at (Buffer_from input_bytes) 0 \<noteq> Some 0x11"
    and "raw_at (Buffer_from input_bytes) 0 \<noteq> Some 0x01"
  shows "decodeUplink input_bytes =
           Returns \<lparr>errors = [''Invalid uplink payload: unknown frame type''],
                    warnings = [], data = Some []\<rparr>"
  using assms by (simp add: decodeUplink_def Let_def length_Buffer_from)

lemma data_frame_returns: "\<exists>r. data_frame raw d = Returns r"
  by (simp add: data_frame_def Let_def)

text \<open>The base variant throws on the 13-byte status frames and on nothing else.\<close>

lemma decodeUplink_throws_iff:
  "decodeUplink input_bytes = Throws e \<longleftrightarrow>
     e = TypeError \<and> length input_bytes = 13 \<and> raw_at (Buffer_from input_bytes) 0 = Some 0x11"
proof -
  let ?raw = "Buffer_from input_bytes"
  consider (long) "30 < length input_bytes"
    | (status) "length input_bytes \<le> 30" "raw_at ?raw 0 = Some 0x11"
    | (data) "length input_bytes \<le> 30" "raw_at ?raw 0 = Some 0x01"
    | (other) "length input_bytes \<le> 30" "raw_at ?raw 0 \<noteq> Some 0x11" "raw_at ?raw 0 \<noteq> Some 0x01"
    by fastforce
  then show ?thesis
  proof cases
    case long
    then show ?thesis by (simp add: decodeUplink_def Let_def length_Buffer_from)
  next
    case status
    consider "length input_bytes < 13" | "length input_bytes = 13" | "14 \<le> length input_bytes"
      by linarith
    then show ?thesis
    proof cases
      case 1
      then show ?thesis
        using status by (auto simp: decodeUplink_def Let_def length_Buffer_from status_frame_short)
    next
      case 2
      then show ?thesis
        using status by (auto simp: decodeUplink_def Let_def length_Buffer_from status_frame_13)
    next
      case 3
      then show ?thesis
        using status by (auto simp: decodeUplink_def Let_def length_Buffer_from status_frame_long)
    qed
  next
    case data
    obtain r where "data_frame ?raw [] = Returns r"
      using data_frame_returns by blast
    then show ?thesis
      using data by (simp add: decodeUplink_def Let_def length_Buffer_from)
  next
    case other
    then show ?thesis
      using decodeUplink_unknown_frame_type [of input_bytes] by simp
  qed
qed

text \<open>
  After \<open>raw[0] = 17\<close> the second loop of the sample driver stops at once: on the
  empty buffer, or on the unknown id 17.
\<close>

lemma tag_loop_after_assignment: "\<exists>r. tag_loop (raw[0 := 17]) 0 d = Returns r"
proof (cases raw)
  case Nil
  then show ?thesis by (subst tag_loop.simps) simp
next
  case (Cons b bs)
  then show ?thesis by (subst tag_loop.simps) (simp add: raw_at_def)
qed

text \<open>So the sample driver returns on every input.\<close>

lemma decodeUplink_sample_returns: "\<exists>r. decodeUplink_sample input_bytes = Returns r"
proof (cases "length input_bytes > 30")
  case True
  then show ?thesis by (simp add: decodeUplink_sample_def Let_def length_Buffer_from)
next
  case False
  then show ?thesis
    using tag_loop_after_assignment
    by (simp add: decodeUplink_sample_def Let_def length_Buffer_from split: sum.splits)
qed

text \<open>
  C1.  Two uplink decoders can end in an uncaught exception.  The base variant throws
  a TypeError on a 13-byte status frame (see \<open>status_frame_13\<close>); the hex-view variant
  throws a ReferenceError on every input of at most 30 bytes.
\<close>

theorem decodeUplink_can_throw:
  "decodeUplink [0x11, 1, 2, 3, 4, 1, 0, 0, 0, 1, 1, 2, 3] = Throws TypeError
   \<and> decodeUplink_hex [0x11, 1, 2, 3, 4, 1, 0, 0, 0, 1, 1, 2, 3, 4] = Throws ReferenceError"
  by code_simp

text \<open>
  C2.  In the sample driver the test \<open>raw[0] = 17\<close> overwrites the leading byte, so a
  frame starting with 0x05 is read as a status frame and decoded without error; the
  hex-view variant throws instead of reporting the unknown frame type.
\<close>

theorem unknown_leading_byte_accepted:
  "decodeUplink_sample [0x05, 0x04] =
     Returns \<lparr>errors = [], warnings = [],
              data = Some [(''frame'', JStr ''Status frame''), (''name'', JStr ''undefined44'')]\<rparr>
   \<and> decodeUplink_hex [0x05] = Throws ReferenceError"
  by code_simp

end
